theory Spec2Isabelle
  imports Complex_Main
begin

section \<open>The game engine of js/engine.js\<close>

text \<open>
  A shallow embedding of \<^verbatim>\<open>TMNT_Game_Theme/js/engine.js\<close>: the game loop
  (\<^verbatim>\<open>main\<close>, \<^verbatim>\<open>init\<close>, \<^verbatim>\<open>update\<close>, \<^verbatim>\<open>render\<close>,
  \<^verbatim>\<open>reset\<close>) and the collision resolver (\<^verbatim>\<open>checkCollisions\<close>).

  JavaScript numbers are modelled as follows: coordinates and the time step are reals
  (rounding, NaN and the infinities of IEEE doubles are not modelled), the counters
  \<^verbatim>\<open>life\<close> and \<^verbatim>\<open>score\<close> and the millisecond readings of
  \<^verbatim>\<open>Date.now()\<close> are integers.
\<close>

subsection \<open>Actors\<close>

text \<open>
  The classes \<^verbatim>\<open>app.Player\<close>, \<^verbatim>\<open>app.Enemy\<close>, \<^verbatim>\<open>app.Gem\<close> and
  \<^verbatim>\<open>app.Heart\<close> are declared in app.js. The engine reads and writes the fields
  below; whatever else an enemy, a gem or a heart keeps (a speed, a sprite, the random
  draws its methods will make) is the extension part of its record.
\<close>

record actor =
  x :: real
  y :: real

record player = actor +
  life :: int
  score :: int

record heart = actor +
  notVisible :: bool

type_synonym 'e enemy = "'e actor_scheme"

type_synonym 'g gem = "'g actor_scheme"

subsection \<open>What the engine does to the outside\<close>

text \<open>Drawing operations on the 2D context of the canvas.\<close>

datatype draw =
    DrawImage string real real
  | FillText string real real

text \<open>
  Calls that leave engine.js, in the order they are made: methods of the actors (an
  enemy is named by its index in \<^verbatim>\<open>allEnemies\<close>) and the frame scheduling
  functions of \<^verbatim>\<open>window\<close>. \<^verbatim>\<open>heart.update()\<close> and \<^verbatim>\<open>gem.update()\<close>
  are called without an argument, \<^verbatim>\<open>enemy.update(dt)\<close> with the time step.
\<close>

datatype call =
    EnemyUpdate nat real
  | HeartUpdate
  | GemUpdate
  | EnemyNewWave nat
  | CancelAnimationFrame "nat option"
  | RequestAnimationFrame nat

text \<open>
  The collaborators of the engine that are not in engine.js, taken as parameters: the
  methods of app.js, each acting on its own actor, the drawing a \<^verbatim>\<open>render\<close>
  method issues, and the clock (\<open>Date_now k\<close> is what the \<open>k\<close>-th call of
  \<^verbatim>\<open>Date.now()\<close> returns).
\<close>

record ('e, 'g, 'h) app =
  Enemy_update :: "real \<Rightarrow> 'e enemy \<Rightarrow> 'e enemy"
  Enemy_newWave :: "'e enemy \<Rightarrow> 'e enemy"
  Enemy_render :: "'e enemy \<Rightarrow> draw list"
  Gem_update :: "'g gem \<Rightarrow> 'g gem"
  Gem_render :: "'g gem \<Rightarrow> draw list"
  Heart_update :: "'h heart_scheme \<Rightarrow> 'h heart_scheme"
  Player_render :: "player \<Rightarrow> draw list"
  Player_renderText :: "player \<Rightarrow> draw list"
  Date_now :: "nat \<Rightarrow> int"

subsection \<open>The state of the engine\<close>

text \<open>
  \<^verbatim>\<open>app.ACTORS\<close>, the two variables \<^verbatim>\<open>lastTime\<close> and
  \<^verbatim>\<open>requestAnimationFrameID\<close> of the engine's closure (the second is
  \<^verbatim>\<open>undefined\<close>, here \<open>None\<close>, until \<^verbatim>\<open>main\<close> has run once), and the
  part of the browser the engine acts on: the handles of the frame callbacks that are
  requested and not yet run or cancelled (\<open>pending\<close>; every callback the engine
  requests is \<^verbatim>\<open>main\<close>), the next handle the window will hand out, the number of
  clock readings made, the calls made so far and everything drawn so far.
  \<^verbatim>\<open>lastTime\<close> is written by \<^verbatim>\<open>init\<close> before \<^verbatim>\<open>main\<close> first reads it.
\<close>

record ('e, 'g, 'h) state =
  player :: player
  allEnemies :: "'e enemy list"
  gem :: "'g gem"
  heart :: "'h heart_scheme"
  lastTime :: int
  requestAnimationFrameID :: "nat option"
  pending :: "nat list"
  next_handle :: nat
  clock_reads :: nat
  calls :: "call list"
  canvas :: "draw list"

subsection \<open>The collision test\<close>

definition between :: "real \<Rightarrow> real \<Rightarrow> real \<Rightarrow> bool" where
  "between v lo hi \<longleftrightarrow> v \<ge> lo \<and> v \<le> hi"

text \<open>
  The test \<^verbatim>\<open>checkCollisions\<close> writes out three times, for an enemy, the gem and the
  heart: \<^verbatim>\<open>between(player.x, b.x - 60, b.x + 60) && between(player.y, b.y - 10, b.y + 10)\<close>.
\<close>

definition collides :: "'a actor_scheme \<Rightarrow> 'b actor_scheme \<Rightarrow> bool" where
  "collides p b \<longleftrightarrow>
     between (x p) (x b - 60) (x b + 60) \<and> between (y p) (y b - 10) (y b + 10)"

subsection \<open>Frame scheduling\<close>

text \<open>
  \<^verbatim>\<open>win.cancelAnimationFrame(id)\<close> removes the callback with that handle from
  the pending ones, and does nothing when there is none (or \<^verbatim>\<open>id\<close> is
  \<^verbatim>\<open>undefined\<close>). \<^verbatim>\<open>win.requestAnimationFrame(main)\<close> adds a callback and
  returns its fresh handle.
\<close>

definition cancelAnimationFrame ::
  "nat option \<Rightarrow> ('e, 'g, 'h) state \<Rightarrow> ('e, 'g, 'h) state" where
  "cancelAnimationFrame h s =
     s\<lparr>pending := filter (\<lambda>k. Some k \<noteq> h) (pending s),
       calls := calls s @ [CancelAnimationFrame h]\<rparr>"

definition requestAnimationFrame ::
  "('e, 'g, 'h) state \<Rightarrow> nat \<times> ('e, 'g, 'h) state" where
  "requestAnimationFrame s =
     (next_handle s,
      s\<lparr>pending := pending s @ [next_handle s],
        next_handle := Suc (next_handle s),
        calls := calls s @ [RequestAnimationFrame (next_handle s)]\<rparr>)"

subsection \<open>reset\<close>

definition reset :: "('e, 'g, 'h) app \<Rightarrow> ('e, 'g, 'h) state \<Rightarrow> ('e, 'g, 'h) state" where
  "reset A s =
     cancelAnimationFrame (requestAnimationFrameID s)
       (s\<lparr>player := (player s)\<lparr>x := 200, y := 350\<rparr>,
          heart := (heart s)\<lparr>x := - 100\<rparr>,
          allEnemies := map (Enemy_newWave A) (allEnemies s),
          calls := calls s @ map EnemyNewWave [0..<length (allEnemies s)]\<rparr>)"

subsection \<open>updateEntities and render\<close>

definition updateEntities ::
  "('e, 'g, 'h) app \<Rightarrow> real \<Rightarrow> ('e, 'g, 'h) state \<Rightarrow> ('e, 'g, 'h) state" where
  "updateEntities A dt s =
     s\<lparr>allEnemies := map (Enemy_update A dt) (allEnemies s),
       heart := Heart_update A (heart s),
       calls := calls s @ map (\<lambda>i. EnemyUpdate i dt) [0..<length (allEnemies s)]
                  @ [HeartUpdate]\<rparr>"

definition rowImages :: "string list" where
  "rowImages =
     [''images/water-block.png'', ''images/stone-block.png'', ''images/stone-block.png'',
      ''images/stone-block.png'', ''images/grass-block.png'', ''images/grass-block.png'']"

text \<open>
  Modelled from the spec: \<^verbatim>\<open>Heart.prototype.render\<close> is in app.js, which is not
  among the sources. The specification says that a collectible in its not-visible state
  is never rendered; a visible heart is drawn with its image (the one engine.js loads)
  at its position.
\<close>

definition Heart_render :: "'h heart_scheme \<Rightarrow> draw list" where
  "Heart_render h =
     (if notVisible h then [] else [DrawImage ''images/Heart.png'' (x h) (y h)])"

definition renderEntities :: "('e, 'g, 'h) app \<Rightarrow> ('e, 'g, 'h) state \<Rightarrow> draw list" where
  "renderEntities A s =
     Gem_render A (gem s) @ Heart_render (heart s)
       @ concat (map (Enemy_render A) (allEnemies s))
       @ Player_renderText A (player s) @ Player_render A (player s)"

definition render :: "('e, 'g, 'h) app \<Rightarrow> ('e, 'g, 'h) state \<Rightarrow> ('e, 'g, 'h) state" where
  "render A s =
     s\<lparr>canvas := canvas s
         @ concat (map (\<lambda>row. map (\<lambda>col. DrawImage (rowImages ! row)
                                        (real col * 101) (real row * 83)) [0..<5]) [0..<6])
         @ renderEntities A s\<rparr>"

subsection \<open>checkCollisions, update, main and init\<close>

text \<open>
  \<^verbatim>\<open>init\<close> calls \<^verbatim>\<open>main\<close>, which calls \<^verbatim>\<open>update\<close>, which calls
  \<^verbatim>\<open>checkCollisions\<close>, which calls \<^verbatim>\<open>init\<close> again on a collision. The
  functions are first written with the inner \<^verbatim>\<open>init\<close> as an argument \<open>ini\<close>;
  \<open>init\<close> then ties the knot with a bound on the depth of nested \<^verbatim>\<open>init\<close>
  calls. \<open>None\<close> is the call stack running out.

  \<^verbatim>\<open>allEnemies.forEach\<close> visits the indices of the array as it was when the loop
  began, reading each enemy when its turn comes: an \<^verbatim>\<open>init()\<close> made for an earlier
  enemy has already changed the player and the later enemies.
\<close>

fun forEach_enemy ::
  "(('e, 'g, 'h) state \<Rightarrow> ('e, 'g, 'h) state option) \<Rightarrow> nat list \<Rightarrow>
   ('e, 'g, 'h) state \<Rightarrow> ('e, 'g, 'h) state option" where
  "forEach_enemy ini [] s = Some s"
| "forEach_enemy ini (i # is) s =
     (if i < length (allEnemies s) \<and> collides (player s) (allEnemies s ! i)
      then (case ini (s\<lparr>player := (player s)\<lparr>life := life (player s) - 1\<rparr>\<rparr>) of
              None \<Rightarrow> None
            | Some s' \<Rightarrow> forEach_enemy ini is s')
      else forEach_enemy ini is s)"

definition gem_check ::
  "('e, 'g, 'h) app \<Rightarrow> (('e, 'g, 'h) state \<Rightarrow> ('e, 'g, 'h) state option) \<Rightarrow>
   ('e, 'g, 'h) state \<Rightarrow> ('e, 'g, 'h) state option" where
  "gem_check A ini s =
     (if collides (player s) (gem s)
      then ini (s\<lparr>player := (player s)\<lparr>score := score (player s) + 1\<rparr>,
                  gem := Gem_update A (gem s),
                  calls := calls s @ [GemUpdate]\<rparr>)
      else Some s)"

definition heart_check ::
  "('e, 'g, 'h) app \<Rightarrow> ('e, 'g, 'h) state \<Rightarrow> ('e, 'g, 'h) state" where
  "heart_check A s =
     (if collides (player s) (heart s)
      then reset A (s\<lparr>player := (player s)\<lparr>life := life (player s) + 1\<rparr>,
                      heart := (heart s)\<lparr>notVisible := True\<rparr>\<rparr>)
      else s)"

definition checkCollisions_with ::
  "('e, 'g, 'h) app \<Rightarrow> (('e, 'g, 'h) state \<Rightarrow> ('e, 'g, 'h) state option) \<Rightarrow>
   ('e, 'g, 'h) state \<Rightarrow> ('e, 'g, 'h) state option" where
  "checkCollisions_with A ini s =
     (case forEach_enemy ini [0..<length (allEnemies s)] s of
        None \<Rightarrow> None
      | Some s1 \<Rightarrow>
          (case gem_check A ini s1 of
             None \<Rightarrow> None
           | Some s2 \<Rightarrow> Some (heart_check A s2)))"

definition update_with ::
  "('e, 'g, 'h) app \<Rightarrow> (('e, 'g, 'h) state \<Rightarrow> ('e, 'g, 'h) state option) \<Rightarrow>
   real \<Rightarrow> ('e, 'g, 'h) state \<Rightarrow> ('e, 'g, 'h) state option" where
  "update_with A ini dt s = checkCollisions_with A ini (updateEntities A dt s)"

definition main_with ::
  "('e, 'g, 'h) app \<Rightarrow> (('e, 'g, 'h) state \<Rightarrow> ('e, 'g, 'h) state option) \<Rightarrow>
   ('e, 'g, 'h) state \<Rightarrow> ('e, 'g, 'h) state option" where
  "main_with A ini s =
     (let now = Date_now A (clock_reads s);
          dt = real_of_int (now - lastTime s) / 1000
      in case update_with A ini dt (s\<lparr>clock_reads := Suc (clock_reads s)\<rparr>) of
           None \<Rightarrow> None
         | Some s1 \<Rightarrow>
             (let s2 = (render A s1)\<lparr>lastTime := now\<rparr>;
                  (h, s3) = requestAnimationFrame s2
              in Some (s3\<lparr>requestAnimationFrameID := Some h\<rparr>)))"

primrec init ::
  "('e, 'g, 'h) app \<Rightarrow> nat \<Rightarrow> ('e, 'g, 'h) state \<Rightarrow> ('e, 'g, 'h) state option" where
  "init A 0 s = None"
| "init A (Suc n) s =
     (let s1 = reset A s;
          s2 = s1\<lparr>lastTime := Date_now A (clock_reads s1),
                 clock_reads := Suc (clock_reads s1)\<rparr>
      in main_with A (init A n) s2)"

text \<open>
  The functions of the source, with room for \<open>n\<close> nested calls of \<^verbatim>\<open>init\<close>
  below them.
\<close>

definition checkCollisions ::
  "('e, 'g, 'h) app \<Rightarrow> nat \<Rightarrow> ('e, 'g, 'h) state \<Rightarrow> ('e, 'g, 'h) state option" where
  "checkCollisions A n = checkCollisions_with A (init A n)"

definition update ::
  "('e, 'g, 'h) app \<Rightarrow> nat \<Rightarrow> real \<Rightarrow> ('e, 'g, 'h) state \<Rightarrow> ('e, 'g, 'h) state option" where
  "update A n = update_with A (init A n)"

definition main ::
  "('e, 'g, 'h) app \<Rightarrow> nat \<Rightarrow> ('e, 'g, 'h) state \<Rightarrow> ('e, 'g, 'h) state option" where
  "main A n = main_with A (init A n)"

subsection \<open>Quiet worlds and a sample world\<close>

text \<open>
  A world is quiet when the box of no enemy, nor of the gem, nor of the heart contains
  the player: a resolver pass then finds nothing to do.
\<close>

definition quiet :: "('e, 'g, 'h) state \<Rightarrow> bool" where
  "quiet s \<longleftrightarrow>
     (\<forall>e \<in> set (allEnemies s). \<not> collides (player s) e)
     \<and> \<not> collides (player s) (gem s) \<and> \<not> collides (player s) (heart s)"

text \<open>
  A sample of app.js for the closed examples: an enemy runs to the right at 100 pixels a
  second and its new wave starts at x = -100, a collected gem moves to (400, 140), the
  heart's update does nothing, every actor draws its image at its position, and the
  clock advances 16 milliseconds from one reading to the next.
\<close>

definition sample_app :: "(unit, unit, unit) app" where
  "sample_app =
     \<lparr>Enemy_update = (\<lambda>dt e. e\<lparr>x := x e + 100 * dt\<rparr>),
      Enemy_newWave = (\<lambda>e. e\<lparr>x := - 100\<rparr>),
      Enemy_render = (\<lambda>e. [DrawImage ''images/shredder-ico.png'' (x e) (y e)]),
      Gem_update = (\<lambda>g. g\<lparr>x := 400, y := 140\<rparr>),
      Gem_render = (\<lambda>g. [DrawImage ''images/pizza-ico.png'' (x g) (y g)]),
      Heart_update = (\<lambda>h. h),
      Player_render = (\<lambda>p. [DrawImage ''images/leo-ico.png'' (x p) (y p)]),
      Player_renderText = (\<lambda>p. [FillText ''Life'' 0 40, FillText ''Score'' 300 40]),
      Date_now = (\<lambda>k. 1000 + 16 * int k)\<rparr>"

text \<open>
  A world in the middle of a game: the player at the spawn point with three lives, the
  three enemies in their rows y = 70, 140 and 210, a gem, a visible heart, one frame
  callback pending (handle 1, the one \<^verbatim>\<open>main\<close> requested last), the last frame at
  1000 ms and the next clock reading 1016 ms.
\<close>

definition sample_world :: "(unit, unit, unit) state" where
  "sample_world =
     \<lparr>player = \<lparr>x = 200, y = 350, life = 3, score = 0\<rparr>,
      allEnemies = [\<lparr>x = 70, y = 70\<rparr>, \<lparr>x = 300, y = 140\<rparr>, \<lparr>x = 20, y = 210\<rparr>],
      gem = \<lparr>x = 300, y = 300\<rparr>,
      heart = \<lparr>x = 400, y = 210, notVisible = False\<rparr>,
      lastTime = 1000,
      requestAnimationFrameID = Some 1,
      pending = [1],
      next_handle = 2,
      clock_reads = 1,
      calls = [],
      canvas = []\<rparr>"


section \<open>The collision test\<close>

text \<open>
  C1. For all coordinates of the player and of an enemy, the gem or the heart, the
  collision test of the resolver holds exactly when the player's x lies in the closed
  interval from the other's x minus 60 to its x plus 60 and the player's y lies in the
  closed interval from the other's y minus 10 to its y plus 10. The four corners of the
  box, where the player is exactly 60 away in x and 10 away in y, collide; just outside
  a bound nothing collides.
\<close>

theorem collides_iff_tolerance_box:
  "(collides p b \<longleftrightarrow>
      x b - 60 \<le> x p \<and> x p \<le> x b + 60 \<and> y b - 10 \<le> y p \<and> y p \<le> y b + 10)
   \<and> collides (p\<lparr>x := x b + 60, y := y b + 10\<rparr>) b
   \<and> collides (p\<lparr>x := x b + 60, y := y b - 10\<rparr>) b
   \<and> collides (p\<lparr>x := x b - 60, y := y b + 10\<rparr>) b
   \<and> collides (p\<lparr>x := x b - 60, y := y b - 10\<rparr>) b
   \<and> \<not> collides (p\<lparr>x := x b + 61\<rparr>) b
   \<and> \<not> collides (p\<lparr>x := x b - 61\<rparr>) b
   \<and> \<not> collides (p\<lparr>y := y b + 11\<rparr>) b
   \<and> \<not> collides (p\<lparr>y := y b - 11\<rparr>) b"
  by (auto simp add: collides_def between_def)

section \<open>reset\<close>

text \<open>
  C10. For every world, \<^verbatim>\<open>reset()\<close> changes only the player's position, the
  heart's x coordinate, the enemies (each through its own \<^verbatim>\<open>newWave()\<close>) and the
  pending frame callbacks. The player's life and score, the heart's not-visible flag, its
  y coordinate and the rest of it, and the whole gem stay as they were (and so do the
  two variables of the closure, the handle counter, the clock and the canvas): a reset
  after a collision never undoes the change of life or score made just before it.
\<close>

theorem reset_frame:
  "life (player (reset A s)) = life (player s)
   \<and> score (player (reset A s)) = score (player s)
   \<and> notVisible (heart (reset A s)) = notVisible (heart s)
   \<and> y (heart (reset A s)) = y (heart s)
   \<and> heart.more (heart (reset A s)) = heart.more (heart s)
   \<and> gem (reset A s) = gem s
   \<and> lastTime (reset A s) = lastTime s
   \<and> requestAnimationFrameID (reset A s) = requestAnimationFrameID s
   \<and> next_handle (reset A s) = next_handle s
   \<and> clock_reads (reset A s) = clock_reads s
   \<and> canvas (reset A s) = canvas s
   \<and> x (player (reset A s)) = 200 \<and> y (player (reset A s)) = 350
   \<and> x (heart (reset A s)) = - 100
   \<and> allEnemies (reset A s) = map (Enemy_newWave A) (allEnemies s)
   \<and> pending (reset A s) = filter (\<lambda>k. Some k \<noteq> requestAnimationFrameID s) (pending s)
   \<and> calls (reset A s) = calls s @ map EnemyNewWave [0..<length (allEnemies s)]
         @ [CancelAnimationFrame (requestAnimationFrameID s)]"
  by (simp add: reset_def cancelAnimationFrame_def)

text \<open>
  C3, as the specification states it: two calls of \<^verbatim>\<open>reset()\<close> in a row leave
  exactly one frame callback pending. In the sample world one callback is pending, the
  one whose handle the engine holds; after two resets none is.
\<close>

theorem reset_twice_none_pending:
  "pending (reset sample_app (reset sample_app sample_world)) = []"
  by (simp add: reset_def cancelAnimationFrame_def sample_world_def)

text \<open>
  C3, amended. \<^verbatim>\<open>reset()\<close> requests no frame callback (the request is commented
  out in the source); it only cancels the one whose handle is in
  \<^verbatim>\<open>requestAnimationFrameID\<close>. Two calls in a row leave pending what one call
  leaves: the callbacks pending before, without that one. Nothing accumulates, the
  window hands out no handle, and from a world where the held callback is the only one
  pending, none is pending afterwards.
\<close>

theorem reset_twice_schedule:
  "pending (reset A (reset A s)) = pending (reset A s)
   \<and> pending (reset A s) = filter (\<lambda>k. Some k \<noteq> requestAnimationFrameID s) (pending s)
   \<and> length (pending (reset A (reset A s))) \<le> length (pending s)
   \<and> next_handle (reset A (reset A s)) = next_handle s
   \<and> pending (reset A (reset A (s\<lparr>requestAnimationFrameID := Some h, pending := [h]\<rparr>))) = []"
  by (simp add: reset_def cancelAnimationFrame_def)

section \<open>A pass of the resolver over a quiet world\<close>

lemma quiet_positions:
  "x (player s) = x (player t) \<Longrightarrow> y (player s) = y (player t) \<Longrightarrow>
   allEnemies s = allEnemies t \<Longrightarrow> gem s = gem t \<Longrightarrow> heart s = heart t \<Longrightarrow>
   quiet s = quiet t"
  by (simp add: quiet_def collides_def)

lemma forEach_enemy_quiet:
  "(\<forall>e \<in> set (allEnemies s). \<not> collides (player s) e) \<Longrightarrow> forEach_enemy ini is s = Some s"
  by (induction "is") auto

lemma checkCollisions_with_quiet: "quiet s \<Longrightarrow> checkCollisions_with A ini s = Some s"
  by (simp add: quiet_def checkCollisions_with_def forEach_enemy_quiet gem_check_def
      heart_check_def)

text \<open>A tick whose round of updates leaves the world quiet, written out.\<close>

lemma main_with_quiet:
  assumes "quiet (updateEntities A (real_of_int (Date_now A (clock_reads s) - lastTime s) / 1000) s)"
  shows "main_with A ini s =
    Some ((updateEntities A (real_of_int (Date_now A (clock_reads s) - lastTime s) / 1000) s)
      \<lparr>clock_reads := Suc (clock_reads s),
        canvas := canvas (render A (updateEntities A
           (real_of_int (Date_now A (clock_reads s) - lastTime s) / 1000) s)),
        lastTime := Date_now A (clock_reads s),
        pending := pending s @ [next_handle s],
        next_handle := Suc (next_handle s),
        calls := calls s @ map (\<lambda>i. EnemyUpdate i
             (real_of_int (Date_now A (clock_reads s) - lastTime s) / 1000))
             [0..<length (allEnemies s)] @ [HeartUpdate, RequestAnimationFrame (next_handle s)],
        requestAnimationFrameID := Some (next_handle s)\<rparr>)"
proof -
  let ?dt = "real_of_int (Date_now A (clock_reads s) - lastTime s) / 1000"
  let ?u = "updateEntities A ?dt (s\<lparr>clock_reads := Suc (clock_reads s)\<rparr>)"
  have "quiet ?u = quiet (updateEntities A ?dt s)"
    by (rule quiet_positions) (simp_all add: updateEntities_def)
  with assms have "checkCollisions_with A ini ?u = Some ?u"
    by (simp add: checkCollisions_with_quiet)
  then show ?thesis
    by (simp add: main_with_def update_with_def Let_def requestAnimationFrame_def
        render_def renderEntities_def updateEntities_def)
qed

text \<open>
  A full \<^verbatim>\<open>init()\<close> whose restarted world is quiet after its first round of
  updates: it returns, whatever room is left for further nesting.
\<close>

lemma init_quiet:
  assumes "quiet (updateEntities A
     (real_of_int (Date_now A (Suc (clock_reads s)) - Date_now A (clock_reads s)) / 1000)
     (reset A s))"
  shows "\<exists>s'. init A (Suc n) s = Some s' \<and> quiet s'
     \<and> player s' = (player s)\<lparr>x := 200, y := 350\<rparr>
     \<and> allEnemies s' = map (\<lambda>e. Enemy_update A
           (real_of_int (Date_now A (Suc (clock_reads s)) - Date_now A (clock_reads s)) / 1000)
           (Enemy_newWave A e)) (allEnemies s)
     \<and> gem s' = gem s
     \<and> heart s' = Heart_update A ((heart s)\<lparr>x := - 100\<rparr>)
     \<and> pending s' = filter (\<lambda>k. Some k \<noteq> requestAnimationFrameID s) (pending s) @ [next_handle s]
     \<and> requestAnimationFrameID s' = Some (next_handle s)
     \<and> next_handle s' = Suc (next_handle s)
     \<and> lastTime s' = Date_now A (Suc (clock_reads s))
     \<and> clock_reads s' = Suc (Suc (clock_reads s))
     \<and> calls s' = calls s @ map EnemyNewWave [0..<length (allEnemies s)]
          @ [CancelAnimationFrame (requestAnimationFrameID s)]
          @ map (\<lambda>i. EnemyUpdate i
              (real_of_int (Date_now A (Suc (clock_reads s)) - Date_now A (clock_reads s)) / 1000))
              [0..<length (allEnemies s)]
          @ [HeartUpdate, RequestAnimationFrame (next_handle s)]"
proof -
  let ?dt = "real_of_int (Date_now A (Suc (clock_reads s)) - Date_now A (clock_reads s)) / 1000"
  let ?s2 = "(reset A s)\<lparr>lastTime := Date_now A (clock_reads (reset A s)),
                          clock_reads := Suc (clock_reads (reset A s))\<rparr>"
  have dt: "real_of_int (Date_now A (clock_reads ?s2) - lastTime ?s2) / 1000 = ?dt"
    by (simp add: reset_def cancelAnimationFrame_def)
  have "quiet (updateEntities A ?dt ?s2) = quiet (updateEntities A ?dt (reset A s))"
    by (rule quiet_positions) (simp_all add: updateEntities_def)
  with assms have q: "quiet (updateEntities A ?dt ?s2)" by simp
  have m: "init A (Suc n) s = main_with A (init A n) ?s2"
    by (simp add: Let_def)
  note r = main_with_quiet [of A ?s2 "init A n", unfolded dt, OF q]
  show ?thesis
    unfolding m r using q
    by (simp add: quiet_def updateEntities_def reset_def cancelAnimationFrame_def)
qed

section \<open>The order of the calls\<close>

text \<open>Whatever a function of the loop does, the calls made before it stay as they are.\<close>

lemma forEach_enemy_calls:
  assumes ini: "\<And>t t'. ini t = Some t' \<Longrightarrow> \<exists>r. calls t' = calls t @ r"
    and "forEach_enemy ini is s = Some s'"
  shows "\<exists>r. calls s' = calls s @ r"
  using assms(2)
proof (induction "is" arbitrary: s)
  case Nil
  then show ?case by simp
next
  case (Cons i "is")
  show ?case
  proof (cases "i < length (allEnemies s) \<and> collides (player s) (allEnemies s ! i)")
    case True
    with Cons.prems obtain t where
      t: "ini (s\<lparr>player := (player s)\<lparr>life := life (player s) - 1\<rparr>\<rparr>) = Some t"
      and rest: "forEach_enemy ini is t = Some s'"
      by (auto split: option.splits)
    from ini [OF t] obtain r1 where "calls t = calls s @ r1" by auto
    moreover from Cons.IH [OF rest] obtain r2 where "calls s' = calls t @ r2" by auto
    ultimately show ?thesis by simp
  next
    case False
    with Cons.prems have "forEach_enemy ini is s = Some s'" by auto
    then show ?thesis by (rule Cons.IH)
  qed
qed

lemma checkCollisions_with_calls:
  assumes ini: "\<And>t t'. ini t = Some t' \<Longrightarrow> \<exists>r. calls t' = calls t @ r"
    and "checkCollisions_with A ini s = Some s'"
  shows "\<exists>r. calls s' = calls s @ r"
proof -
  from assms(2) obtain s1 s2 where
    s1: "forEach_enemy ini [0..<length (allEnemies s)] s = Some s1"
    and s2: "gem_check A ini s1 = Some s2"
    and s': "s' = heart_check A s2"
    by (auto simp add: checkCollisions_with_def split: option.splits)
  from forEach_enemy_calls [OF ini s1] obtain r1 where r1: "calls s1 = calls s @ r1"
    by auto
  have "\<exists>r. calls s2 = calls s1 @ r"
  proof (cases "collides (player s1) (gem s1)")
    case True
    with s2 have "ini (s1\<lparr>player := (player s1)\<lparr>score := score (player s1) + 1\<rparr>,
        gem := Gem_update A (gem s1), calls := calls s1 @ [GemUpdate]\<rparr>) = Some s2"
      by (simp add: gem_check_def)
    from ini [OF this] show ?thesis by auto
  next
    case False
    with s2 show ?thesis by (simp add: gem_check_def)
  qed
  then obtain r2 where r2: "calls s2 = calls s1 @ r2" by auto
  have "\<exists>r. calls s' = calls s2 @ r"
    by (simp add: s' heart_check_def reset_def cancelAnimationFrame_def)
  with r1 r2 show ?thesis by auto
qed

lemma main_with_calls:
  assumes ini: "\<And>t t'. ini t = Some t' \<Longrightarrow> \<exists>r. calls t' = calls t @ r"
    and "main_with A ini s = Some s'"
  shows "(\<exists>r. calls s' = calls s
            @ map (\<lambda>i. EnemyUpdate i (real_of_int (Date_now A (clock_reads s) - lastTime s) / 1000))
                [0..<length (allEnemies s)]
            @ HeartUpdate # r)
         \<and> lastTime s' = Date_now A (clock_reads s)"
proof -
  let ?dt = "real_of_int (Date_now A (clock_reads s) - lastTime s) / 1000"
  let ?u = "updateEntities A ?dt (s\<lparr>clock_reads := Suc (clock_reads s)\<rparr>)"
  from assms(2) obtain s1 where
    s1: "checkCollisions_with A ini ?u = Some s1"
    and s': "s' = (snd (requestAnimationFrame
                     ((render A s1)\<lparr>lastTime := Date_now A (clock_reads s)\<rparr>)))
               \<lparr>requestAnimationFrameID := Some (next_handle s1)\<rparr>"
    by (auto simp add: main_with_def update_with_def Let_def requestAnimationFrame_def render_def
        split: option.splits)
  from checkCollisions_with_calls [OF ini s1] obtain r where "calls s1 = calls ?u @ r"
    by auto
  then show ?thesis
    by (simp add: s' requestAnimationFrame_def render_def updateEntities_def)
qed

lemma init_calls: "init A n s = Some s' \<Longrightarrow> \<exists>r. calls s' = calls s @ r"
proof (induction n arbitrary: s s')
  case 0
  then show ?case by simp
next
  case (Suc n)
  let ?s2 = "(reset A s)\<lparr>lastTime := Date_now A (clock_reads (reset A s)),
                          clock_reads := Suc (clock_reads (reset A s))\<rparr>"
  from Suc.prems have "main_with A (init A n) ?s2 = Some s'"
    by (simp add: Let_def)
  from main_with_calls [OF Suc.IH this] obtain r where "calls s' = calls ?s2 @ r"
    by auto
  then show ?case
    by (simp add: reset_def cancelAnimationFrame_def)
qed





section \<open>The player after a restart\<close>







section \<open>An enemy on the player\<close>









section \<open>The gem on the player\<close>

lemma checkCollisions_with_gem_hit:
  assumes "\<forall>e \<in> set (allEnemies s). \<not> collides (player s) e"
    and "collides (player s) (gem s)"
    and "ini (s\<lparr>player := (player s)\<lparr>score := score (player s) + 1\<rparr>,
                gem := Gem_update A (gem s), calls := calls s @ [GemUpdate]\<rparr>) = Some s'"
    and "quiet s'"
  shows "checkCollisions_with A ini s = Some s'"
  using assms
  by (simp add: checkCollisions_with_def forEach_enemy_quiet gem_check_def heart_check_def
      quiet_def)

text \<open>
  C5, as the specification states it: in every world where the box of the gem contains
  the player, the pass adds one to the score and calls \<^verbatim>\<open>gem.update()\<close>. Here an
  enemy and the gem both lie on the player at (300, 140): the enemies are tested first,
  the restart moves the player to the spawn point, and the gem is no longer under it.
  The score stays 0, the gem stays where it was, and a life is lost.
\<close>

theorem gem_not_collected_under_enemy:
  "map_option (\<lambda>s'. (score (player s'), life (player s'), gem s'))
     (checkCollisions sample_app (Suc 0)
        (sample_world\<lparr>player := \<lparr>x = 300, y = 140, life = 3, score = 0\<rparr>,
                       gem := \<lparr>x = 300, y = 140\<rparr>\<rparr>))
   = Some (0, 2, \<lparr>x = 300, y = 140\<rparr>)"
  by (simp add: checkCollisions_def checkCollisions_with_def gem_check_def heart_check_def
      main_with_def update_with_def updateEntities_def render_def reset_def
      cancelAnimationFrame_def requestAnimationFrame_def Let_def
      sample_world_def sample_app_def collides_def between_def)

text \<open>
  C5, amended. In every world where the box of the gem contains the player and the box
  of no enemy does, a pass of the resolver returns with the score one higher, the life
  unchanged, \<^verbatim>\<open>gem.update()\<close> called exactly once (the gem is what that call made of
  it), and the session restarted by a full \<^verbatim>\<open>init()\<close> after it: player at
  (200, 350), every enemy through \<^verbatim>\<open>newWave()\<close>, the held callback cancelled and
  a new one requested. As for C2, the restarted world is assumed quiet after its first
  round of updates.
\<close>

theorem gem_collision_scores:
  assumes clear: "\<forall>e \<in> set (allEnemies s). \<not> collides (player s) e"
    and hit: "collides (player s) (gem s)"
    and restart: "quiet (updateEntities A
       (real_of_int (Date_now A (Suc (clock_reads s)) - Date_now A (clock_reads s)) / 1000)
       (reset A (s\<lparr>gem := Gem_update A (gem s)\<rparr>)))"
  shows "\<exists>s'. checkCollisions A (Suc n) s = Some s'
     \<and> score (player s') = score (player s) + 1
     \<and> life (player s') = life (player s)
     \<and> gem s' = Gem_update A (gem s)
     \<and> length (filter (\<lambda>c. c = GemUpdate) (calls s'))
         = Suc (length (filter (\<lambda>c. c = GemUpdate) (calls s)))
     \<and> x (player s') = 200 \<and> y (player s') = 350
     \<and> allEnemies s' = map (\<lambda>e. Enemy_update A
           (real_of_int (Date_now A (Suc (clock_reads s)) - Date_now A (clock_reads s)) / 1000)
           (Enemy_newWave A e)) (allEnemies s)
     \<and> pending s' = filter (\<lambda>k. Some k \<noteq> requestAnimationFrameID s) (pending s) @ [next_handle s]
     \<and> requestAnimationFrameID s' = Some (next_handle s)
     \<and> calls s' = calls s @ [GemUpdate] @ map EnemyNewWave [0..<length (allEnemies s)]
          @ [CancelAnimationFrame (requestAnimationFrameID s)]
          @ map (\<lambda>i. EnemyUpdate i
              (real_of_int (Date_now A (Suc (clock_reads s)) - Date_now A (clock_reads s)) / 1000))
              [0..<length (allEnemies s)]
          @ [HeartUpdate, RequestAnimationFrame (next_handle s)]"
proof -
  let ?dt = "real_of_int (Date_now A (Suc (clock_reads s)) - Date_now A (clock_reads s)) / 1000"
  let ?g = "s\<lparr>player := (player s)\<lparr>score := score (player s) + 1\<rparr>,
              gem := Gem_update A (gem s), calls := calls s @ [GemUpdate]\<rparr>"
  have "quiet (updateEntities A ?dt (reset A ?g))
      = quiet (updateEntities A ?dt (reset A (s\<lparr>gem := Gem_update A (gem s)\<rparr>)))"
    by (rule quiet_positions) (simp_all add: updateEntities_def reset_def cancelAnimationFrame_def)
  with restart have "quiet (updateEntities A
       (real_of_int (Date_now A (Suc (clock_reads ?g)) - Date_now A (clock_reads ?g)) / 1000)
       (reset A ?g))"
    by simp
  from init_quiet [OF this, of n] obtain s' where
    s': "init A (Suc n) ?g = Some s'" "quiet s'"
      "player s' = (player ?g)\<lparr>x := 200, y := 350\<rparr>"
      "allEnemies s' = map (\<lambda>e. Enemy_update A ?dt (Enemy_newWave A e)) (allEnemies ?g)"
      "gem s' = gem ?g"
      "pending s' = filter (\<lambda>k. Some k \<noteq> requestAnimationFrameID ?g) (pending ?g) @ [next_handle ?g]"
      "requestAnimationFrameID s' = Some (next_handle ?g)"
      "calls s' = calls ?g @ map EnemyNewWave [0..<length (allEnemies ?g)]
          @ [CancelAnimationFrame (requestAnimationFrameID ?g)]
          @ map (\<lambda>i. EnemyUpdate i ?dt) [0..<length (allEnemies ?g)]
          @ [HeartUpdate, RequestAnimationFrame (next_handle ?g)]"
    by auto
  have "checkCollisions A (Suc n) s = Some s'"
    unfolding checkCollisions_def
    by (rule checkCollisions_with_gem_hit [where ini = "init A (Suc n)", OF clear hit s'(1) s'(2)])
  with s' show ?thesis by (simp add: filter_map comp_def)
qed

text \<open>
  The scenario of the specification: the gem at (300, 300) and the player on it.
\<close>

theorem gem_collision_scores_witness:
  "\<exists>s'. checkCollisions sample_app (Suc 0)
          (sample_world\<lparr>player := \<lparr>x = 300, y = 300, life = 3, score = 0\<rparr>\<rparr>) = Some s'
     \<and> score (player s') = 1 \<and> life (player s') = 3
     \<and> gem s' = \<lparr>x = 400, y = 140\<rparr>
     \<and> length (filter (\<lambda>c. c = GemUpdate) (calls s')) = 1
     \<and> x (player s') = 200 \<and> y (player s') = 350
     \<and> pending s' = [2]
     \<and> requestAnimationFrameID s' = Some 2
     \<and> calls s' = [GemUpdate, EnemyNewWave 0, EnemyNewWave 1, EnemyNewWave 2,
          CancelAnimationFrame (Some 1),
          EnemyUpdate 0 0.016, EnemyUpdate 1 0.016, EnemyUpdate 2 0.016, HeartUpdate,
          RequestAnimationFrame 2]"
proof -
  let ?s = "sample_world\<lparr>player := \<lparr>x = 300, y = 300, life = 3, score = 0\<rparr>\<rparr>"
  have clear: "\<forall>e \<in> set (allEnemies ?s). \<not> collides (player ?s) e"
    by (simp add: sample_world_def collides_def between_def)
  have hit: "collides (player ?s) (gem ?s)"
    by (simp add: sample_world_def collides_def between_def)
  have restart: "quiet (updateEntities sample_app
       (real_of_int (Date_now sample_app (Suc (clock_reads ?s))
          - Date_now sample_app (clock_reads ?s)) / 1000)
       (reset sample_app (?s\<lparr>gem := Gem_update sample_app (gem ?s)\<rparr>)))"
    by (simp add: quiet_def updateEntities_def reset_def cancelAnimationFrame_def
        sample_world_def sample_app_def collides_def between_def)
  show ?thesis
    using gem_collision_scores [OF clear hit restart, of 0]
    by (auto simp add: sample_world_def sample_app_def)
qed

section \<open>The heart on the player\<close>

text \<open>
  C6, as the specification states it: in every world where the box of the heart contains
  the player, the pass adds one to the life and sets the heart's not-visible flag. Here
  an enemy and the heart both lie on the player at (20, 210): the enemy is tested
  first, the restart moves the player to the spawn point and the heart to x = -100, and
  the heart is not picked up. A life is lost instead of won, the flag stays unset, and a
  new callback is pending.
\<close>

theorem heart_not_collected_under_enemy:
  "map_option (\<lambda>s'. (life (player s'), notVisible (heart s'), pending s'))
     (checkCollisions sample_app (Suc 0)
        (sample_world\<lparr>player := \<lparr>x = 20, y = 210, life = 3, score = 0\<rparr>,
                       heart := \<lparr>x = 20, y = 210, notVisible = False\<rparr>\<rparr>))
   = Some (2, False, [2])"
  by (simp add: checkCollisions_def checkCollisions_with_def gem_check_def heart_check_def
      main_with_def update_with_def updateEntities_def render_def reset_def
      cancelAnimationFrame_def requestAnimationFrame_def Let_def
      sample_world_def sample_app_def collides_def between_def)

text \<open>
  C6, amended. In every world where the box of the heart contains the player and the box
  of no enemy and not that of the gem does, a pass of the resolver returns (it needs no
  nested \<^verbatim>\<open>init()\<close> at all) with the life one higher, the heart's not-visible flag
  set, and the effect of \<^verbatim>\<open>reset()\<close> alone: player at (200, 350), heart at
  x = -100, every enemy through \<^verbatim>\<open>newWave()\<close>, the held callback cancelled. No
  frame callback is requested, no handle is handed out, the clock is not read and
  nothing is updated or drawn by this branch.
\<close>

theorem heart_collision_resets_only:
  assumes clear: "\<forall>e \<in> set (allEnemies s). \<not> collides (player s) e"
    and no_gem: "\<not> collides (player s) (gem s)"
    and hit: "collides (player s) (heart s)"
  shows "\<exists>s'. checkCollisions A n s = Some s'
     \<and> life (player s') = life (player s) + 1
     \<and> score (player s') = score (player s)
     \<and> notVisible (heart s')
     \<and> x (player s') = 200 \<and> y (player s') = 350
     \<and> x (heart s') = - 100 \<and> y (heart s') = y (heart s)
     \<and> allEnemies s' = map (Enemy_newWave A) (allEnemies s)
     \<and> gem s' = gem s
     \<and> pending s' = filter (\<lambda>k. Some k \<noteq> requestAnimationFrameID s) (pending s)
     \<and> requestAnimationFrameID s' = requestAnimationFrameID s
     \<and> next_handle s' = next_handle s
     \<and> lastTime s' = lastTime s \<and> clock_reads s' = clock_reads s
     \<and> canvas s' = canvas s
     \<and> calls s' = calls s @ map EnemyNewWave [0..<length (allEnemies s)]
          @ [CancelAnimationFrame (requestAnimationFrameID s)]"
  using assms
  by (simp add: checkCollisions_def checkCollisions_with_def forEach_enemy_quiet
      gem_check_def heart_check_def reset_def cancelAnimationFrame_def)

theorem heart_collision_resets_only_witness:
  "\<exists>s'. checkCollisions sample_app 0
          (sample_world\<lparr>player := \<lparr>x = 400, y = 210, life = 2, score = 5\<rparr>\<rparr>) = Some s'
     \<and> life (player s') = 3 \<and> score (player s') = 5
     \<and> notVisible (heart s')
     \<and> x (player s') = 200 \<and> y (player s') = 350
     \<and> x (heart s') = - 100 \<and> y (heart s') = 210
     \<and> pending s' = []
     \<and> requestAnimationFrameID s' = Some 1
     \<and> next_handle s' = 2
     \<and> calls s' = [EnemyNewWave 0, EnemyNewWave 1, EnemyNewWave 2, CancelAnimationFrame (Some 1)]"
proof -
  let ?s = "sample_world\<lparr>player := \<lparr>x = 400, y = 210, life = 2, score = 5\<rparr>\<rparr>"
  have clear: "\<forall>e \<in> set (allEnemies ?s). \<not> collides (player ?s) e"
    by (simp add: sample_world_def collides_def between_def)
  have no_gem: "\<not> collides (player ?s) (gem ?s)"
    by (simp add: sample_world_def collides_def between_def)
  have hit: "collides (player ?s) (heart ?s)"
    by (simp add: sample_world_def collides_def between_def)
  show ?thesis
    using heart_collision_resets_only [OF clear no_gem hit, of sample_app 0]
    by (auto simp add: sample_world_def sample_app_def)
qed




section \<open>The time step and the order of a tick\<close>

text \<open>
  C8. Every tick reads the clock and takes as time step the reading minus the stored
  \<^verbatim>\<open>lastTime\<close>, divided by 1000, with no bound on it: \<^verbatim>\<open>main\<close> fails exactly
  when \<^verbatim>\<open>update\<close> with this time step fails, and when it returns, the first calls
  it has made are \<^verbatim>\<open>enemy.update\<close> with this time step for every enemy, and the
  reading is stored as the new \<^verbatim>\<open>lastTime\<close>. With 1000 stored and 1016 read the
  time step is 0.016.
\<close>

theorem main_time_step:
  "(main A n s = None \<longleftrightarrow>
      update A n (real_of_int (Date_now A (clock_reads s) - lastTime s) / 1000)
        (s\<lparr>clock_reads := Suc (clock_reads s)\<rparr>) = None)
   \<and> (\<forall>s'. main A n s = Some s' \<longrightarrow>
        (\<exists>r. calls s' = calls s
            @ map (\<lambda>i. EnemyUpdate i (real_of_int (Date_now A (clock_reads s) - lastTime s) / 1000))
                [0..<length (allEnemies s)]
            @ HeartUpdate # r)
        \<and> lastTime s' = Date_now A (clock_reads s))"
proof -
  have "main A n s = None \<longleftrightarrow>
      update A n (real_of_int (Date_now A (clock_reads s) - lastTime s) / 1000)
        (s\<lparr>clock_reads := Suc (clock_reads s)\<rparr>) = None"
    by (simp add: main_def main_with_def update_def Let_def split: option.splits prod.splits)
  moreover have "(\<exists>r. calls s' = calls s
            @ map (\<lambda>i. EnemyUpdate i (real_of_int (Date_now A (clock_reads s) - lastTime s) / 1000))
                [0..<length (allEnemies s)]
            @ HeartUpdate # r)
        \<and> lastTime s' = Date_now A (clock_reads s)"
    if "main A n s = Some s'" for s'
  proof -
    from that have "main_with A (init A n) s = Some s'"
      by (simp add: main_def)
    from main_with_calls [OF init_calls this] show ?thesis .
  qed
  ultimately show ?thesis by blast
qed

theorem main_time_step_witness:
  "\<exists>s'. main sample_app 0 sample_world = Some s'
     \<and> lastTime sample_world = 1000
     \<and> Date_now sample_app (clock_reads sample_world) = 1016
     \<and> (\<exists>r. calls s' = [EnemyUpdate 0 0.016, EnemyUpdate 1 0.016, EnemyUpdate 2 0.016,
                         HeartUpdate] @ r)
     \<and> lastTime s' = 1016"
proof -
  have "quiet (updateEntities sample_app
      (real_of_int (Date_now sample_app (clock_reads sample_world) - lastTime sample_world) / 1000)
      sample_world)"
    by (simp add: quiet_def updateEntities_def sample_world_def sample_app_def
        collides_def between_def)
  from main_with_quiet [OF this, of "init sample_app 0"]
  obtain s' where m: "main sample_app 0 sample_world = Some s'"
    by (simp add: main_def)
  from main_time_step [of sample_app 0 sample_world] m show ?thesis
    by (auto simp add: sample_world_def sample_app_def)
qed

text \<open>
  C9, as the specification states it: \<^verbatim>\<open>update(dt)\<close> invokes the advance of every
  actor, each receiving the time step. In the sample world a call of
  \<^verbatim>\<open>updateEntities\<close> with 0.016 makes four calls: \<^verbatim>\<open>update(0.016)\<close> of the
  three enemies, and \<^verbatim>\<open>heart.update()\<close>, which receives no time step. The player
  and the gem are not advanced.
\<close>

theorem heart_update_without_time_step:
  "calls (updateEntities sample_app 0.016 sample_world)
     = [EnemyUpdate 0 0.016, EnemyUpdate 1 0.016, EnemyUpdate 2 0.016, HeartUpdate]
   \<and> player (updateEntities sample_app 0.016 sample_world) = player sample_world
   \<and> gem (updateEntities sample_app 0.016 sample_world) = gem sample_world"
  by (simp add: updateEntities_def sample_world_def)

text \<open>
  C9, amended. \<^verbatim>\<open>update(dt)\<close> is the resolver run once on the world that
  \<^verbatim>\<open>updateEntities(dt)\<close> leaves. \<^verbatim>\<open>updateEntities(dt)\<close> calls
  \<^verbatim>\<open>update(dt)\<close> of every enemy, in the order of the array, then
  \<^verbatim>\<open>heart.update()\<close> without an argument, and leaves the player and the gem as they
  are. Whenever \<^verbatim>\<open>update\<close> returns, these calls come before every call the
  resolver has made.
\<close>

theorem update_order:
  "update A n dt s = checkCollisions A n (updateEntities A dt s)
   \<and> allEnemies (updateEntities A dt s) = map (Enemy_update A dt) (allEnemies s)
   \<and> heart (updateEntities A dt s) = Heart_update A (heart s)
   \<and> player (updateEntities A dt s) = player s
   \<and> gem (updateEntities A dt s) = gem s
   \<and> calls (updateEntities A dt s)
       = calls s @ map (\<lambda>i. EnemyUpdate i dt) [0..<length (allEnemies s)] @ [HeartUpdate]
   \<and> (\<forall>s'. update A n dt s = Some s' \<longrightarrow>
         (\<exists>r. calls s' = calls s @ map (\<lambda>i. EnemyUpdate i dt) [0..<length (allEnemies s)]
                  @ HeartUpdate # r))"
proof -
  have "\<exists>r. calls s' = calls s @ map (\<lambda>i. EnemyUpdate i dt) [0..<length (allEnemies s)]
                  @ HeartUpdate # r"
    if "update A n dt s = Some s'" for s'
  proof -
    from that have "checkCollisions_with A (init A n) (updateEntities A dt s) = Some s'"
      by (simp add: update_def update_with_def)
    from checkCollisions_with_calls [OF init_calls this]
    show ?thesis by (simp add: updateEntities_def)
  qed
  then show ?thesis
    by (simp add: update_def update_with_def checkCollisions_def updateEntities_def)
qed

theorem update_order_witness:
  "update sample_app 0 0.016 sample_world = Some (updateEntities sample_app 0.016 sample_world)
   \<and> (\<exists>r. calls (updateEntities sample_app 0.016 sample_world)
          = [EnemyUpdate 0 0.016, EnemyUpdate 1 0.016, EnemyUpdate 2 0.016, HeartUpdate] @ r)"
proof -
  have "quiet (updateEntities sample_app 0.016 sample_world)"
    by (simp add: quiet_def updateEntities_def sample_world_def sample_app_def
        collides_def between_def)
  then have u: "update sample_app 0 0.016 sample_world
      = Some (updateEntities sample_app 0.016 sample_world)"
    by (simp add: update_def update_with_def checkCollisions_with_quiet)
  with update_order [of sample_app 0 "0.016" sample_world] show ?thesis
    by (auto simp add: sample_world_def)
qed

section \<open>Pending frame callbacks\<close>

text \<open>
  C4. The specification asks that at most one frame callback is ever pending. The code
  does not keep this: take the sample world while its one callback runs (it is no longer
  pending) and the player has stepped onto the first enemy. The resolver calls
  \<^verbatim>\<open>init()\<close>, whose \<^verbatim>\<open>reset()\<close> cancels the callback that is already running,
  and whose \<^verbatim>\<open>main()\<close> requests callback 2; back in the outer \<^verbatim>\<open>main\<close>, the
  tick ends by requesting callback 3. Two callbacks are pending, and the engine holds the
  handle of the second only.
\<close>

theorem tick_with_enemy_hit_two_pending:
  "map_option (\<lambda>s'. (pending s', requestAnimationFrameID s'))
     (main sample_app (Suc 0)
        (sample_world\<lparr>pending := [], player := \<lparr>x = 70, y = 70, life = 3, score = 0\<rparr>\<rparr>))
   = Some ([2, 3], Some 3)"
  by (simp add: main_def checkCollisions_with_def gem_check_def heart_check_def
      main_with_def update_with_def updateEntities_def render_def reset_def
      cancelAnimationFrame_def requestAnimationFrame_def Let_def
      sample_world_def sample_app_def collides_def between_def)

end
